theory Spec2Isabelle
  imports Main "HOL-Library.Countable" "HOL-Library.Sublist"
begin

section \<open>Python values and the operations the two modules apply to them\<close>

text \<open>
  The modules \<^verbatim>\<open>ceph_orch_apply.py\<close> and \<^verbatim>\<open>ceph_config.py\<close> handle values produced by
  \<^verbatim>\<open>yaml.safe_load\<close>: null, booleans, integers, floats, strings, sequences and
  mappings. A mapping is an association list in insertion order; a Python dict
  corresponds to a list whose keys are distinct, and field names are strings.
  Timestamps, binary scalars and non-string mapping keys are outside the modelled
  fragment. A \<open>string\<close> is a list of bytes, so the text operations below are those of
  ASCII text.
\<close>

text \<open>A float by the number it stands for: every finite float is a rational number,
  and \<^verbatim>\<open>.inf\<close>, \<^verbatim>\<open>-.inf\<close> and \<^verbatim>\<open>.nan\<close> are the three special values. Only
  comparisons are made on floats, never arithmetic.\<close>

datatype pyfloat = Finite rat | PosInf | NegInf | NaN

datatype yaml =
    YNull
  | YBool bool
  | YInt int
  | YFloat pyfloat
  | YStr string
  | YSeq "yaml list"
  | YMap "(string \<times> yaml) list"

text \<open>The exceptions the modelled code can raise. \<open>LibraryError\<close> is whatever
  a parser of the standard or YAML library raises on malformed text.\<close>

datatype py_error =
    KeyError string
  | TypeError
  | ValueError
  | AttributeError
  | RuntimeError string
  | LibraryError string

text \<open>\<^verbatim>\<open>==\<close> on two floats: equal numbers and equal infinities; \<^verbatim>\<open>nan\<close> equals
  nothing, itself included.\<close>

fun float_eq :: "pyfloat \<Rightarrow> pyfloat \<Rightarrow> bool" where
  "float_eq (Finite r) (Finite s) = (r = s)"
| "float_eq PosInf PosInf = True"
| "float_eq NegInf NegInf = True"
| "float_eq _ _ = False"

text \<open>The number a boolean, an integer or a float stands for in a comparison:
  \<^verbatim>\<open>bool\<close> is a subtype of \<^verbatim>\<open>int\<close> with \<^verbatim>\<open>True\<close> being 1 and \<^verbatim>\<open>False\<close> being 0, and
  an integer is compared with a float by its exact value.\<close>

fun num_value :: "yaml \<Rightarrow> pyfloat option" where
  "num_value (YBool b) = Some (Finite (if b then 1 else 0))"
| "num_value (YInt n) = Some (Finite (of_int n))"
| "num_value (YFloat f) = Some f"
| "num_value _ = None"

text \<open>
  Python's \<^verbatim>\<open>==\<close> on these values. Numbers are equal when they stand for the same
  number, so \<^verbatim>\<open>True == 1\<close> and \<^verbatim>\<open>1 == 1.0\<close>; sequences are equal when they have the
  same length and equal elements in order; mappings are equal when they have the same
  number of keys and every key of the left one is bound to an equal value in the right
  one. \<^verbatim>\<open>a != b\<close> is the negation. The two sides of every comparison made by
  \<^verbatim>\<open>change_required\<close> come from two different parses and share no object, so object
  identity plays no part.
\<close>

fun py_eq :: "yaml \<Rightarrow> yaml \<Rightarrow> bool" where
  "py_eq YNull b = (b = YNull)"
| "py_eq (YBool x) b =
     (case num_value b of Some g \<Rightarrow> float_eq (Finite (if x then 1 else 0)) g | None \<Rightarrow> False)"
| "py_eq (YInt i) b =
     (case num_value b of Some g \<Rightarrow> float_eq (Finite (of_int i)) g | None \<Rightarrow> False)"
| "py_eq (YFloat f) b =
     (case num_value b of Some g \<Rightarrow> float_eq f g | None \<Rightarrow> False)"
| "py_eq (YStr s) b = (b = YStr s)"
| "py_eq (YSeq xs) b =
     (case b of YSeq ys \<Rightarrow> list_all2 py_eq xs ys | _ \<Rightarrow> False)"
| "py_eq (YMap d) b =
     (case b of
        YMap e \<Rightarrow>
          length d = length e \<and>
          list_all (\<lambda>(k, v). case map_of e k of None \<Rightarrow> False | Some w \<Rightarrow> py_eq v w) d
      | _ \<Rightarrow> False)"

text \<open>The values that Python can hold: no mapping, at any depth, binds a key twice.\<close>

fun distinct_keys :: "yaml \<Rightarrow> bool" where
  "distinct_keys (YSeq xs) = list_all distinct_keys xs"
| "distinct_keys (YMap d) = (distinct (map fst d) \<and> list_all (\<lambda>(k, v). distinct_keys v) d)"
| "distinct_keys _ = True"

text \<open>Truthiness, as tested by \<^verbatim>\<open>if not current\<close>.\<close>

fun py_truthy :: "yaml \<Rightarrow> bool" where
  "py_truthy YNull = False"
| "py_truthy (YBool b) = b"
| "py_truthy (YInt n) = (n \<noteq> 0)"
| "py_truthy (YFloat f) = (f \<noteq> Finite 0)"
| "py_truthy (YStr s) = (s \<noteq> [])"
| "py_truthy (YSeq xs) = (xs \<noteq> [])"
| "py_truthy (YMap d) = (d \<noteq> [])"

text \<open>\<^verbatim>\<open>obj[key]\<close> with a string key: a lookup in a mapping (\<^verbatim>\<open>KeyError\<close> when the
  key is missing), a \<^verbatim>\<open>TypeError\<close> on every other value.\<close>

fun py_getitem :: "yaml \<Rightarrow> string \<Rightarrow> py_error + yaml" where
  "py_getitem (YMap d) key =
     (case map_of d key of None \<Rightarrow> Inl (KeyError key) | Some v \<Rightarrow> Inr v)"
| "py_getitem _ key = Inl TypeError"

text \<open>\<^verbatim>\<open>d[key] = v\<close> on a dict: the value of an existing key is replaced where it
  stands, a new key is appended.\<close>

fun dict_setitem :: "string \<Rightarrow> yaml \<Rightarrow> (string \<times> yaml) list \<Rightarrow> (string \<times> yaml) list" where
  "dict_setitem k v [] = [(k, v)]"
| "dict_setitem k v ((k', v') # d) =
     (if k' = k then (k, v) # d else (k', v') # dict_setitem k v d)"

text \<open>\<^verbatim>\<open>obj[key] = v\<close> with a string key: only a mapping accepts it.\<close>

fun py_setitem :: "yaml \<Rightarrow> string \<Rightarrow> yaml \<Rightarrow> py_error + yaml" where
  "py_setitem (YMap d) key v = Inr (YMap (dict_setitem key v d))"
| "py_setitem _ key v = Inl TypeError"

text \<open>\<^verbatim>\<open>key in obj\<close> with a string key: key membership in a mapping, element
  membership (by \<^verbatim>\<open>==\<close>) in a sequence, substring test in a string, and a
  \<^verbatim>\<open>TypeError\<close> on a value that is not a container.\<close>

fun py_contains :: "yaml \<Rightarrow> string \<Rightarrow> py_error + bool" where
  "py_contains (YMap d) key = Inr (map_of d key \<noteq> None)"
| "py_contains (YSeq xs) key = Inr (list_ex (\<lambda>x. py_eq x (YStr key)) xs)"
| "py_contains (YStr s) key = Inr (sublist key s)"
| "py_contains _ key = Inl TypeError"

text \<open>\<^verbatim>\<open>obj.items()\<close>: only a mapping has the method.\<close>

fun py_items :: "yaml \<Rightarrow> py_error + (string \<times> yaml) list" where
  "py_items (YMap d) = Inr d"
| "py_items _ = Inl AttributeError"

section \<open>ceph\_orch\_apply: the equivalence evaluator\<close>

text \<open>
  The \<^verbatim>\<open>for key, value in expected.items()\<close> loop of \<^verbatim>\<open>change_required\<close>, run on
  the items still to be visited. \<open>Inr True\<close> is the \<^verbatim>\<open>return True\<close> inside the
  loop, \<open>Inr False\<close> the \<^verbatim>\<open>return False\<close> after it.
\<close>

fun change_required_loop :: "yaml \<Rightarrow> (string \<times> yaml) list \<Rightarrow> py_error + bool" where
  "change_required_loop current [] = Inr False"
| "change_required_loop current ((key, val) # rest) =
     (case py_contains current key of
        Inl e \<Rightarrow> Inl e
      | Inr True \<Rightarrow>
          (case py_getitem current key of
             Inl e \<Rightarrow> Inl e
           | Inr cv \<Rightarrow>
               if \<not> py_eq cv val then Inr True
               else change_required_loop current rest)
      | Inr False \<Rightarrow>
          if key \<noteq> ''location'' then Inr True
          else change_required_loop current rest)"

text \<open>
  \<^verbatim>\<open>change_required(current, expected)\<close>. The function assigns to
  \<^verbatim>\<open>current['service_type']\<close>, so the model returns, next to the result (the verdict
  or the exception raised), the state of the caller's \<open>current\<close> object when the
  call ends.
\<close>

definition change_required :: "yaml \<Rightarrow> yaml \<Rightarrow> (py_error + bool) \<times> yaml" where
  "change_required current expected =
     (if \<not> py_truthy current then (Inr True, current)
      else
        case py_getitem expected ''service_type'' of
          Inl e \<Rightarrow> (Inl e, current)
        | Inr st \<Rightarrow>
            (case (if py_eq st (YStr ''host'')
                   then py_setitem current ''service_type'' (YStr ''host'')
                   else Inr current) of
               Inl e \<Rightarrow> (Inl e, current)
             | Inr current' \<Rightarrow>
                 (case py_items expected of
                    Inl e \<Rightarrow> (Inl e, current')
                  | Inr items \<Rightarrow> (change_required_loop current' items, current'))))"

section \<open>The module object, the commands it runs and the outcome of an invocation\<close>

text \<open>
  What the code reads from \<^verbatim>\<open>AnsibleModule\<close>: the check-mode flag and
  \<^verbatim>\<open>run_command(cmd, data)\<close>, a function of the argument vector and of the text fed
  to standard input. \<open>'a\<close> is the type of a command argument, \<open>'r\<close> what
  \<^verbatim>\<open>run_command\<close> returns.
\<close>

record ('a, 'r) ansible_module =
  check_mode :: bool
  run_command :: "'a list \<Rightarrow> string option \<Rightarrow> 'r"

text \<open>Every function that runs commands returns, next to its result, the calls it
  made to \<^verbatim>\<open>run_command\<close>, in order.\<close>

type_synonym 'a call = "'a list \<times> string option"

text \<open>The keyword arguments \<^verbatim>\<open>out, rc, cmd, err, changed\<close> handed to
  \<^verbatim>\<open>exit_module\<close>.\<close>

record 'a exit_args =
  exit_out :: string
  exit_rc :: int
  exit_cmd :: "'a list"
  exit_err :: string
  exit_changed :: bool

text \<open>
  How an invocation ends: through \<^verbatim>\<open>exit_module\<close>; through
  \<^verbatim>\<open>module.fail_json(msg, cmd, rc)\<close>, the structured failure result of the framework;
  through \<^verbatim>\<open>fatal(message, module)\<close>; through the \<^verbatim>\<open>fail_json\<close> that reports the
  missing YAML library; through the framework refusing the arguments
  (\<^verbatim>\<open>required_if\<close>); or through an exception nobody catches.
\<close>

datatype 'a outcome =
    Exited "'a exit_args"
  | Fail_Json string "'a list" int
  | Fatal string
  | Missing_Library
  | Invalid_Arguments
  | Raised py_error

text \<open>
  Modelled from the spec: \<^verbatim>\<open>exit_module\<close> of \<^verbatim>\<open>module_utils/ceph_common.py\<close>, which
  is not among the sources. The Outcome Reporter assembles the one outcome of the
  invocation from the changed flag, the command executed, the output and the error text
  it is given, and the invocation ends there (time stamps are left to the boundary layer
  and are not modelled).
\<close>

definition exit_module :: "string \<Rightarrow> int \<Rightarrow> 'a list \<Rightarrow> string \<Rightarrow> bool \<Rightarrow> 'a outcome" where
  "exit_module out rc cmd err changed =
     Exited \<lparr>exit_out = out, exit_rc = rc, exit_cmd = cmd, exit_err = err,
       exit_changed = changed\<rparr>"

text \<open>
  Modelled from the spec: \<^verbatim>\<open>fatal\<close> of \<^verbatim>\<open>module_utils/ceph_common.py\<close>, which is not
  among the sources. A fatal baseline failure aborts the whole invocation at once, with
  the message it is given and no partial outcome.
\<close>

definition fatal :: "string \<Rightarrow> 'a outcome" where
  "fatal message = Fatal message"

section \<open>ceph\_orch\_apply: fetching, applying, and the invocation\<close>

text \<open>\<^verbatim>\<open>isinstance(out, str)\<close> in \<^verbatim>\<open>retrieve_current_spec\<close> distinguishes a bare
  string from the triple \<^verbatim>\<open>(rc, stdout, stderr)\<close>, so both shapes are values of what
  \<^verbatim>\<open>run_command\<close> returns there.\<close>

datatype run_result = RTuple int string string | RStr string

text \<open>
  The module object of \<^verbatim>\<open>ceph_orch_apply\<close> with the rest of its environment:
  the \<^verbatim>\<open>spec\<close> parameter, whether \<^verbatim>\<open>import yaml\<close> succeeded, the command prefix
  returned by \<^verbatim>\<open>build_base_cmd_orch(module)\<close> (a helper of
  \<^verbatim>\<open>module_utils/ceph_common.py\<close>, taken as given), the library function
  \<^verbatim>\<open>yaml.safe_load\<close>, and Python's \<^verbatim>\<open>str()\<close> on values that are not strings.
\<close>

record orch_module = "(yaml, run_result) ansible_module" +
  params_spec :: string
  HAS_ANOTHER_LIBRARY :: bool
  build_base_cmd_orch :: "yaml list"
  safe_load :: "string \<Rightarrow> py_error + yaml"
  str_of :: "yaml \<Rightarrow> string"

text \<open>The conversion \<^verbatim>\<open>%s\<close> of the \<^verbatim>\<open>%\<close> operator: a string stands for itself,
  any other value for its \<^verbatim>\<open>str()\<close>.\<close>

definition percent_s :: "orch_module \<Rightarrow> yaml \<Rightarrow> string" where
  "percent_s module v = (case v of YStr s \<Rightarrow> s | _ \<Rightarrow> str_of module v)"

definition parse_spec :: "orch_module \<Rightarrow> string \<Rightarrow> py_error + yaml" where
  "parse_spec module spec = safe_load module spec"

text \<open>The service types whose name carries the \<open>service_id\<close>.\<close>

definition id_services :: "yaml list" where
  "id_services = map YStr [''iscsi'', ''nvmeof'', ''mds'', ''nfs'', ''osd'', ''rgw'',
     ''container'', ''ingress'']"

text \<open>The argument vector that \<^verbatim>\<open>retrieve_current_spec\<close> builds: the service
  name first, then the listing command for services or for hosts. A missing
  \<open>service_id\<close> or \<open>hostname\<close> is a \<^verbatim>\<open>KeyError\<close>.\<close>

definition retrieve_cmd :: "orch_module \<Rightarrow> yaml \<Rightarrow> yaml \<Rightarrow> py_error + yaml list" where
  "retrieve_cmd module expected_spec service =
     (case (if list_ex (\<lambda>x. py_eq service x) id_services
            then (case py_getitem expected_spec ''service_id'' of
                    Inl e \<Rightarrow> Inl e
                  | Inr sid \<Rightarrow>
                      Inr (YStr (percent_s module service @ ''.'' @ percent_s module sid)))
            else Inr service) of
        Inl e \<Rightarrow> Inl e
      | Inr srv_name \<Rightarrow>
          if \<not> py_eq service (YStr ''host'')
          then Inr (build_base_cmd_orch module @
                 [YStr ''ls'', service, srv_name, YStr ''--format=yaml''])
          else (case py_getitem expected_spec ''hostname'' of
                  Inl e \<Rightarrow> Inl e
                | Inr hostname \<Rightarrow>
                    Inr (build_base_cmd_orch module @
                      [YStr ''host'', YStr ''ls'', YStr ''--host-pattern'', hostname,
                       YStr ''--format=yaml''])))"

definition retrieve_current_spec ::
  "orch_module \<Rightarrow> yaml \<Rightarrow> (py_error + yaml) \<times> yaml call list" where
  "retrieve_current_spec module expected_spec =
     (case py_getitem expected_spec ''service_type'' of
        Inl e \<Rightarrow> (Inl e, [])
      | Inr service \<Rightarrow>
          (case retrieve_cmd module expected_spec service of
             Inl e \<Rightarrow> (Inl e, [])
           | Inr cmd \<Rightarrow>
               (case run_command module cmd None of
                  RStr s \<Rightarrow> (Inr (YMap []), [(cmd, None)])
                | RTuple rc stdout stderr \<Rightarrow> (safe_load module stdout, [(cmd, None)]))))"

text \<open>
  \<^verbatim>\<open>apply_spec\<close>. \<^verbatim>\<open>rc, out, err = module.run_command(cmd, data=data)\<close> unpacks a
  triple; a bare string unpacks only when it has three characters, which then are the
  three (non-empty, hence true) values, and is a \<^verbatim>\<open>ValueError\<close> otherwise.
\<close>

definition apply_spec ::
  "orch_module \<Rightarrow> string \<Rightarrow> (py_error + int \<times> yaml list \<times> string \<times> string) \<times> yaml call list" where
  "apply_spec module data =
     (let cmd = build_base_cmd_orch module @ [YStr ''apply'', YStr ''-i'', YStr ''-'']
      in case run_command module cmd (Some data) of
           RTuple rc out err \<Rightarrow>
             if rc \<noteq> 0 then (Inl (RuntimeError err), [(cmd, Some data)])
             else (Inr (rc, cmd, out, err), [(cmd, Some data)])
         | RStr s \<Rightarrow>
             (case s of
                [rc, out, err] \<Rightarrow> (Inl (RuntimeError [err]), [(cmd, Some data)])
              | _ \<Rightarrow> (Inl ValueError, [(cmd, Some data)])))"

text \<open>\<^verbatim>\<open>run_module\<close>: the outcome of the invocation and the commands it ran. The
  empty texts \<^verbatim>\<open>out=''\<close> and \<^verbatim>\<open>err=''\<close> are written \<open>[]\<close>.\<close>

definition run_module :: "orch_module \<Rightarrow> yaml outcome \<times> yaml call list" where
  "run_module module =
     (if \<not> HAS_ANOTHER_LIBRARY module then (Missing_Library, [])
      else if check_mode module then (exit_module [] 0 [] [] False, [])
      else
        case parse_spec module (params_spec module) of
          Inl e \<Rightarrow> (Raised e, [])
        | Inr expected \<Rightarrow>
            (case retrieve_current_spec module expected of
               (Inl e, reads) \<Rightarrow> (Raised e, reads)
             | (Inr current_spec, reads) \<Rightarrow>
                 (case fst (change_required current_spec expected) of
                    Inl e \<Rightarrow> (Raised e, reads)
                  | Inr True \<Rightarrow>
                      (case apply_spec module (params_spec module) of
                         (Inl e, writes) \<Rightarrow> (Raised e, reads @ writes)
                       | (Inr (rc, cmd, out, err), writes) \<Rightarrow>
                           (exit_module out rc cmd err True, reads @ writes))
                  | Inr False \<Rightarrow> (exit_module [] 0 [] [] False, reads))))"

section \<open>ceph\_config\<close>

text \<open>\<^verbatim>\<open>str.lower()\<close> on ASCII text.\<close>

definition lower_char :: "char \<Rightarrow> char" where
  "lower_char c =
     (case map_of (zip ''ABCDEFGHIJKLMNOPQRSTUVWXYZ'' ''abcdefghijklmnopqrstuvwxyz'') c of
        Some l \<Rightarrow> l
      | None \<Rightarrow> c)"

definition lower :: "string \<Rightarrow> string" where
  "lower s = map lower_char s"

text \<open>\<^verbatim>\<open>str.strip()\<close>: the ASCII white space characters (tab, line feed, vertical
  tab, form feed, carriage return, the separators \<open>0x1C\<close> to \<open>0x1F\<close>, and the
  space) are removed from both ends.\<close>

definition isspace :: "char \<Rightarrow> bool" where
  "isspace c = (let n = of_char c :: nat in (9 \<le> n \<and> n \<le> 13) \<or> (28 \<le> n \<and> n \<le> 32))"

definition strip :: "string \<Rightarrow> string" where
  "strip s = rev (dropWhile isspace (rev (dropWhile isspace s)))"

text \<open>\<^verbatim>\<open>str(x)\<close> of a value that is a string or \<^verbatim>\<open>None\<close>; it is also how
  \<^verbatim>\<open>str.format\<close> renders such a value.\<close>

fun py_str :: "string option \<Rightarrow> string" where
  "py_str None = ''None''"
| "py_str (Some s) = s"

datatype action = Action_get | Action_set | Action_remove

text \<open>An entry of the configuration dump, with the three fields the code reads:
  \<^verbatim>\<open>config['section']\<close>, \<^verbatim>\<open>config['name']\<close> and \<^verbatim>\<open>config['value']\<close>, the last
  one a string as the return type of \<^verbatim>\<open>get_current_value\<close> declares.\<close>

record config =
  config_section :: string
  config_name :: string
  config_value :: string

text \<open>
  The module object of \<^verbatim>\<open>ceph_config\<close> with the rest of its environment: the
  parameters \<^verbatim>\<open>who\<close>, \<^verbatim>\<open>option\<close>, \<^verbatim>\<open>value\<close> (optional) and \<^verbatim>\<open>action\<close>, the
  command prefix returned by \<^verbatim>\<open>build_base_cmd_shell(module)\<close> (a helper of
  \<^verbatim>\<open>module_utils/ceph_common.py\<close>, taken as given), and \<^verbatim>\<open>json.loads\<close> read at the
  type \<^verbatim>\<open>List[Dict[str, Any]]\<close> that \<^verbatim>\<open>get_current_value\<close> declares for it. Here
  \<^verbatim>\<open>run_command\<close> returns the triple \<^verbatim>\<open>(rc, stdout, stderr)\<close>.
\<close>

record config_module = "(string, int \<times> string \<times> string) ansible_module" +
  params_who :: string
  params_option :: string
  params_value :: "string option"
  params_action :: action
  build_base_cmd_shell :: "string list"
  json_loads :: "string \<Rightarrow> py_error + config list"

text \<open>The three argument vectors of the module.\<close>

definition config_dump_cmd :: "config_module \<Rightarrow> string list" where
  "config_dump_cmd module =
     build_base_cmd_shell module @ [''ceph'', ''config'', ''dump'', ''--format'', ''json'']"

definition config_set_cmd :: "config_module \<Rightarrow> string \<Rightarrow> string \<Rightarrow> string \<Rightarrow> string list" where
  "config_set_cmd module who option v =
     build_base_cmd_shell module @ [''ceph'', ''config'', ''set'', who, option, v]"

definition config_rm_cmd :: "config_module \<Rightarrow> string \<Rightarrow> string \<Rightarrow> string list" where
  "config_rm_cmd module who option =
     build_base_cmd_shell module @ [''ceph'', ''config'', ''rm'', who, option]"

definition set_option ::
  "config_module \<Rightarrow> string \<Rightarrow> string \<Rightarrow> string \<Rightarrow>
   (int \<times> string list \<times> string \<times> string) \<times> string call list" where
  "set_option module who option v =
     (let cmd = config_set_cmd module who option v;
          (rc, out, err) = run_command module cmd None
      in ((rc, cmd, strip out, err), [(cmd, None)]))"

definition remove_option ::
  "config_module \<Rightarrow> string \<Rightarrow> string \<Rightarrow>
   (int \<times> string list \<times> string \<times> string) \<times> string call list" where
  "remove_option module who option =
     (let cmd = config_rm_cmd module who option;
          (rc, out, err) = run_command module cmd None
      in ((rc, cmd, strip out, err), [(cmd, None)]))"

text \<open>The text that \<^verbatim>\<open>get_config_dump\<close> puts before the captured standard error
  in its fatal message; it ends with a line feed.\<close>

definition dump_failure_prefix :: string where
  "dump_failure_prefix =
     ''Can't get current configuration via `ceph config dump`.Error:'' @ [CHR 0x0A]"

text \<open>\<^verbatim>\<open>get_config_dump\<close>: \<open>Inl\<close> is the end of the invocation through
  \<^verbatim>\<open>fatal\<close>, \<open>Inr\<close> the tuple returned.\<close>

definition get_config_dump ::
  "config_module \<Rightarrow>
   (string outcome + int \<times> string list \<times> string \<times> string) \<times> string call list" where
  "get_config_dump module =
     (let cmd = config_dump_cmd module;
          (rc, out, err) = run_command module cmd None
      in if rc \<noteq> 0 then (Inl (fatal (dump_failure_prefix @ err)), [(cmd, None)])
         else (Inr (rc, cmd, strip out, err), [(cmd, None)]))"

fun get_current_value :: "string \<Rightarrow> string \<Rightarrow> config list \<Rightarrow> string option" where
  "get_current_value who option [] = None"
| "get_current_value who option (config # config_dump) =
     (if config_section config = who \<and> config_name config = option
      then Some (config_value config)
      else get_current_value who option config_dump)"

text \<open>The messages of \<^verbatim>\<open>main\<close>, built with \<^verbatim>\<open>str.format\<close>.\<close>

definition already_set_msg :: "string \<Rightarrow> string \<Rightarrow> string option \<Rightarrow> string" where
  "already_set_msg who option v =
     ''who='' @ who @ '' option='' @ option @ '' value='' @ py_str v @ '' already set. Skipping.''"

definition would_be_set_msg :: "string \<Rightarrow> string \<Rightarrow> string option \<Rightarrow> string" where
  "would_be_set_msg who option v =
     ''who='' @ who @ '' option='' @ option @ '' would be set to '' @ py_str v"

definition already_absent_msg :: "string \<Rightarrow> string \<Rightarrow> string" where
  "already_absent_msg who option =
     ''who='' @ who @ '' option='' @ option @ '' already absent. Skipping.''"

definition would_be_removed_msg :: "string \<Rightarrow> string \<Rightarrow> string" where
  "would_be_removed_msg who option =
     ''who='' @ who @ '' option='' @ option @ '' would be removed''"

definition no_value_msg :: "string \<Rightarrow> string \<Rightarrow> string" where
  "no_value_msg who option = ''No value found for who='' @ who @ '' option='' @ option"

text \<open>
  The body of \<^verbatim>\<open>main\<close> from the call of \<^verbatim>\<open>get_config_dump\<close> on, for the
  parameters \<open>who\<close>, \<open>option\<close>, \<open>value\<close> and \<open>action\<close>. The variables
  \<^verbatim>\<open>rc\<close>, \<^verbatim>\<open>cmd\<close>, \<^verbatim>\<open>out\<close> and \<^verbatim>\<open>err\<close> are set by the dump and set again by
  a write command when one runs; \<^verbatim>\<open>exit_module\<close> receives their last values. In the
  branch that runs \<^verbatim>\<open>set_option\<close> the value is a string (see \<open>main\<close>), so
  \<open>py_str value\<close> is that string.
\<close>

definition main_body ::
  "config_module \<Rightarrow> string \<Rightarrow> string \<Rightarrow> string option \<Rightarrow> action \<Rightarrow>
   string outcome \<times> string call list" where
  "main_body module who option v act =
     (case get_config_dump module of
        (Inl aborted, reads) \<Rightarrow> (aborted, reads)
      | (Inr (rc, cmd, out, err), reads) \<Rightarrow>
          (case json_loads module out of
             Inl e \<Rightarrow> (Raised e, reads)
           | Inr config_dump \<Rightarrow>
               (let current_value = get_current_value who option config_dump in
                case act of
                  Action_set \<Rightarrow>
                    if lower (py_str v) = lower (py_str current_value)
                    then (exit_module (already_set_msg who option v) rc cmd err False, reads)
                    else if check_mode module
                    then (exit_module (would_be_set_msg who option v) rc cmd err True, reads)
                    else
                      (case set_option module who option (py_str v) of
                         ((rc', cmd', out', err'), writes) \<Rightarrow>
                           if rc' \<noteq> 0 then (Fail_Json err' cmd' rc', reads @ writes)
                           else (exit_module out' rc' cmd' err' True, reads @ writes))
                | Action_remove \<Rightarrow>
                    if current_value = None
                    then (exit_module (already_absent_msg who option) rc cmd err False, reads)
                    else if check_mode module
                    then (exit_module (would_be_removed_msg who option) rc cmd err True, reads)
                    else
                      (case remove_option module who option of
                         ((rc', cmd', out', err'), writes) \<Rightarrow>
                           if rc' \<noteq> 0 then (Fail_Json err' cmd' rc', reads @ writes)
                           else (exit_module out' rc' cmd' err' True, reads @ writes))
                | Action_get \<Rightarrow>
                    (case current_value of
                       None \<Rightarrow> (exit_module [] rc cmd (no_value_msg who option) False, reads)
                     | Some cv \<Rightarrow> (exit_module cv rc cmd err False, reads)))))"

text \<open>
  \<^verbatim>\<open>main\<close>. Building the module object checks the arguments:
  \<^verbatim>\<open>required_if=[['action', 'set', ['value']]]\<close> refuses \<^verbatim>\<open>action=set\<close> without a
  value, before any command runs.
\<close>

definition main :: "config_module \<Rightarrow> string outcome \<times> string call list" where
  "main module =
     (if params_action module = Action_set \<and> params_value module = None
      then (Invalid_Arguments, [])
      else main_body module (params_who module) (params_option module)
             (params_value module) (params_action module))"

subsection \<open>The config evaluator as the specification words it\<close>

text \<open>For Set, change is required unless the lower-cased texts of the desired and the
  current value are equal; for Remove, iff a current value exists; Get never changes
  anything.\<close>

definition config_change_required :: "action \<Rightarrow> string option \<Rightarrow> string option \<Rightarrow> bool" where
  "config_change_required act desired current =
     (case act of
        Action_set \<Rightarrow> lower (py_str desired) \<noteq> lower (py_str current)
      | Action_remove \<Rightarrow> current \<noteq> None
      | Action_get \<Rightarrow> False)"

subsection \<open>Equality of value as the specification words it\<close>

text \<open>
  What a value stands for: a number (a boolean, an integer and a float stand for the
  number they denote), a text, the sequence of what its elements stand for, in order,
  or the partial function from field names to what the fields stand for, in which the
  order of the keys has no part.
\<close>

datatype val =
    VNull
  | VNum pyfloat
  | VStr string
  | VSeq "val list"
  | VMap "string \<Rightarrow> val option"

fun denote :: "yaml \<Rightarrow> val" where
  "denote YNull = VNull"
| "denote (YBool b) = VNum (Finite (if b then 1 else 0))"
| "denote (YInt n) = VNum (Finite (of_int n))"
| "denote (YFloat f) = VNum f"
| "denote (YStr s) = VStr s"
| "denote (YSeq xs) = VSeq (map denote xs)"
| "denote (YMap d) = VMap (map_of (map (\<lambda>(k, v). (k, denote v)) d))"

text \<open>\<^verbatim>\<open>nan\<close> occurs nowhere in the value.\<close>

fun nan_free :: "yaml \<Rightarrow> bool" where
  "nan_free (YFloat f) = (f \<noteq> NaN)"
| "nan_free (YSeq xs) = list_all nan_free xs"
| "nan_free (YMap d) = list_all (\<lambda>(k, v). nan_free v) d"
| "nan_free _ = True"

text \<open>Recursive equality of value: two values are equal when they stand for the same
  thing, and nothing equals a value that holds \<^verbatim>\<open>nan\<close>.\<close>

definition value_eq :: "yaml \<Rightarrow> yaml \<Rightarrow> bool" where
  "value_eq a b = (nan_free a \<and> denote a = denote b)"

subsection \<open>The evaluator as the specification words it\<close>

text \<open>The live state and the desired spec as what they are, partial functions from
  field names to values. The host-synthetic-type rule: when the desired service type is
  \<open>host\<close>, the live state is given the field \<open>service_type = host\<close> before the
  comparison.\<close>

definition host_synthetic_type ::
  "(string \<rightharpoonup> yaml) \<Rightarrow> (string \<rightharpoonup> yaml) \<Rightarrow> (string \<rightharpoonup> yaml)" where
  "host_synthetic_type current expected =
     (if expected ''service_type'' = Some (YStr ''host'')
      then current(''service_type'' \<mapsto> YStr ''host'')
      else current)"


section \<open>Example invocations\<close>





text \<open>
  A \<^verbatim>\<open>ceph_orch_apply\<close> invocation for the spec \<^verbatim>\<open>service_type: mon\<close>: the listing
  command (run without standard input) returns \<open>listing\<close>, the apply command
  returns \<open>applied\<close>. The loader reads the empty text as \<^verbatim>\<open>None\<close>, the spec as the
  mapping it denotes, and any other text as a plain scalar.
\<close>

definition sample_orch :: "bool \<Rightarrow> run_result \<Rightarrow> run_result \<Rightarrow> orch_module" where
  "sample_orch dry listing applied =
     \<lparr>check_mode = dry,
      run_command = (\<lambda>cmd data. if data = None then listing else applied),
      params_spec = ''service_type: mon'',
      HAS_ANOTHER_LIBRARY = True,
      build_base_cmd_orch = [YStr ''cephadm'', YStr ''shell'', YStr ''ceph'', YStr ''orch''],
      safe_load = (\<lambda>s. if s = [] then Inr YNull
                        else if s = ''service_type: mon''
                        then Inr (YMap [(''service_type'', YStr ''mon'')])
                        else Inr (YStr s)),
      str_of = (\<lambda>v. ''?'')\<rparr>"

text \<open>
  A \<^verbatim>\<open>ceph_config\<close> invocation on \<^verbatim>\<open>who=osd.0\<close>,
  \<^verbatim>\<open>option=osd_memory_target\<close>: the dump command exits with \<open>dump_rc\<close> and its
  output parses to \<open>dump\<close>; a write command exits with \<open>write_rc\<close>.
\<close>

definition sample_config ::
  "action \<Rightarrow> string option \<Rightarrow> bool \<Rightarrow> int \<Rightarrow> config list \<Rightarrow> int \<Rightarrow> config_module" where
  "sample_config act v dry dump_rc dump write_rc =
     \<lparr>check_mode = dry,
      run_command = (\<lambda>cmd data.
        if cmd = [''cephadm'', ''shell'', ''ceph'', ''config'', ''dump'', ''--format'', ''json'']
        then (dump_rc, ''[...]'', ''dump stderr'')
        else (write_rc, ''write stdout'', ''write stderr'')),
      params_who = ''osd.0'',
      params_option = ''osd_memory_target'',
      params_value = v,
      params_action = act,
      build_base_cmd_shell = [''cephadm'', ''shell''],
      json_loads = (\<lambda>s. Inr dump)\<rparr>"


section \<open>Equality of values\<close>

text \<open>\<open>py_eq\<close> ignores the order of the keys of a mapping, respects the order of a
  sequence, compares numbers by value and tells a number from its text.\<close>

lemma py_eq_examples:
  "py_eq (YMap [(''count'', YInt 1), (''label'', YStr ''nfs'')])
         (YMap [(''label'', YStr ''nfs''), (''count'', YInt 1)])"
  "\<not> py_eq (YSeq [YStr ''a'', YStr ''b'']) (YSeq [YStr ''b'', YStr ''a''])"
  "py_eq (YBool True) (YInt 1)"
  "py_eq (YInt 1) (YFloat (Finite 1))"
  "\<not> py_eq (YFloat NaN) (YFloat NaN)"
  "\<not> py_eq (YStr ''1'') (YInt 1)"
  by simp_all

lemma float_eq_iff: "float_eq f g = (f \<noteq> NaN \<and> f = g)"
  by (cases f; cases g) auto

lemma map_of_denote:
  "map_of (map (\<lambda>(k, v). (k, denote v)) d) k = map_option denote (map_of d k)"
  by (induction d) auto

lemma list_all2_conj_eq:
  "list_all2 (\<lambda>x y. P x \<and> f x = g y) xs ys = (list_all P xs \<and> map f xs = map g ys)"
proof (induction xs arbitrary: ys)
  case Nil
  then show ?case by auto
next
  case (Cons x xs)
  then show ?case by (cases ys) auto
qed

lemma keys_card: "distinct (map fst d) \<Longrightarrow> card (fst ` set d) = length d"
  using distinct_card [of "map fst d"] by simp

lemma py_eq_scalar:
  "py_eq (YBool x) b = value_eq (YBool x) b"
  "py_eq (YInt i) b = value_eq (YInt i) b"
  "py_eq (YFloat f) b = value_eq (YFloat f) b"
  "py_eq YNull b = value_eq YNull b"
  "py_eq (YStr s) b = value_eq (YStr s) b"
  by (cases b; auto simp: value_eq_def float_eq_iff)+

text \<open>On the values that Python can hold, \<open>py_eq\<close> is equality of value: both
  values stand for the same thing and hold no \<^verbatim>\<open>nan\<close>.\<close>

lemma py_eq_value_eq:
  "distinct_keys a \<Longrightarrow> distinct_keys b \<Longrightarrow> py_eq a b = value_eq a b"
proof (induction a arbitrary: b)
  case (YSeq xs)
  show ?case
  proof (cases b)
    case (YSeq ys)
    have "list_all2 py_eq xs ys = list_all2 (\<lambda>x y. nan_free x \<and> denote x = denote y) xs ys"
    proof (rule list.rel_cong [OF refl refl])
      fix x y assume "x \<in> set xs" "y \<in> set ys"
      with YSeq.prems \<open>b = YSeq ys\<close> have "distinct_keys x" "distinct_keys y"
        by (auto simp: list_all_iff)
      with YSeq.IH [OF \<open>x \<in> set xs\<close>] show "py_eq x y = (nan_free x \<and> denote x = denote y)"
        by (simp add: value_eq_def)
    qed
    with \<open>b = YSeq ys\<close> show ?thesis
      by (simp add: value_eq_def list_all2_conj_eq)
  qed (auto simp: value_eq_def)
next
  case (YMap d)
  show ?case
  proof (cases b)
    case (YMap e)
    from YMap.prems \<open>b = YMap e\<close>
    have dd: "distinct (map fst d)" and de: "distinct (map fst e)"
      and wd: "\<And>k v. (k, v) \<in> set d \<Longrightarrow> distinct_keys v"
      and we: "\<And>k w. (k, w) \<in> set e \<Longrightarrow> distinct_keys w"
      by (auto simp: list_all_iff)
    have ih: "py_eq v w = (nan_free v \<and> denote v = denote w)"
      if "(k, v) \<in> set d" "(k', w) \<in> set e" for k v k' w
      using YMap.IH [of "(k, v)" v w] that wd we by (auto simp: value_eq_def)
    let ?L = "length d = length e \<and>
      list_all (\<lambda>(k, v). case map_of e k of None \<Rightarrow> False | Some w \<Rightarrow> py_eq v w) d"
    let ?R = "list_all (\<lambda>(k, v). nan_free v) d \<and>
      map_of (map (\<lambda>(k, v). (k, denote v)) d) = map_of (map (\<lambda>(k, v). (k, denote v)) e)"
    have "?L = ?R"
    proof
      assume l: ?L
      have each: "\<exists>w. map_of e k = Some w \<and> nan_free v \<and> denote v = denote w"
        if "(k, v) \<in> set d" for k v
      proof -
        from l that obtain w where w: "map_of e k = Some w" "py_eq v w"
          by (auto simp: list_all_iff split: option.splits)
        from w(1) have "(k, w) \<in> set e" by (rule map_of_SomeD)
        with ih that w show ?thesis by auto
      qed
      then have sub: "fst ` set d \<subseteq> fst ` set e"
        by (force dest: map_of_SomeD)
      from l dd de have "card (fst ` set d) = card (fst ` set e)"
        by (simp add: keys_card)
      with sub have keys: "fst ` set d = fst ` set e"
        by (intro card_subset_eq) auto
      have "map_of (map (\<lambda>(k, v). (k, denote v)) d) k =
            map_of (map (\<lambda>(k, v). (k, denote v)) e) k" for k
      proof (cases "map_of d k")
        case None
        then have "k \<notin> fst ` set d" by (simp add: map_of_eq_None_iff)
        with keys have "map_of e k = None" by (simp add: map_of_eq_None_iff)
        with None show ?thesis by (simp add: map_of_denote)
      next
        case (Some v)
        then have "(k, v) \<in> set d" by (rule map_of_SomeD)
        from each [OF this] Some show ?thesis by (auto simp: map_of_denote)
      qed
      moreover from each have "list_all (\<lambda>(k, v). nan_free v) d"
        by (fastforce simp: list_all_iff)
      ultimately show ?R by auto
    next
      assume r: ?R
      then have eq: "map_option denote (map_of d k) = map_option denote (map_of e k)" for k
        using map_of_denote [of d k] map_of_denote [of e k] by simp
      have "fst ` set d = fst ` set e"
      proof -
        have "(k \<in> fst ` set d) = (k \<in> fst ` set e)" for k
          using eq [of k] map_of_eq_None_iff [of d k] map_of_eq_None_iff [of e k]
          by (cases "map_of d k"; cases "map_of e k") auto
        then show ?thesis by blast
      qed
      with dd de have len: "length d = length e"
        by (metis keys_card)
      have "case map_of e k of None \<Rightarrow> False | Some w \<Rightarrow> py_eq v w" if "(k, v) \<in> set d" for k v
      proof -
        from dd that have "map_of d k = Some v" by simp
        with eq [of k] obtain w where w: "map_of e k = Some w" "denote v = denote w"
          by (cases "map_of e k") auto
        from w(1) have "(k, w) \<in> set e" by (rule map_of_SomeD)
        moreover from r that have "nan_free v" by (auto simp: list_all_iff)
        ultimately show ?thesis using ih that w by auto
      qed
      with len show ?L by (auto simp: list_all_iff)
    qed
    with \<open>b = YMap e\<close> show ?thesis by (simp add: value_eq_def)
  qed (auto simp: value_eq_def)
qed (simp_all only: py_eq_scalar)

lemma py_eq_refl: "distinct_keys v \<Longrightarrow> nan_free v \<Longrightarrow> py_eq v v"
  by (simp add: py_eq_value_eq value_eq_def)

section \<open>Properties of the evaluator\<close>

lemma py_eq_host: "py_eq st (YStr s) = (st = YStr s)"
  by (cases st) auto

lemma map_of_dict_setitem: "map_of (dict_setitem k v d) = (map_of d)(k \<mapsto> v)"
  by (induction d) (auto simp: fun_eq_iff)

text \<open>The loop on a live mapping: it answers whether some item fails the test of
  lines 166 to 174.\<close>

lemma change_required_loop_mapping:
  "change_required_loop (YMap c) items =
     Inr (list_ex (\<lambda>kv. case map_of c (fst kv) of
                           Some cv \<Rightarrow> \<not> py_eq cv (snd kv)
                         | None \<Rightarrow> fst kv \<noteq> ''location'') items)"
proof (induction items)
  case Nil
  show ?case by simp
next
  case (Cons kv items)
  obtain key val where kv: "kv = (key, val)" by (cases kv)
  show ?case
  proof (cases "map_of c key")
    case None
    with Cons kv show ?thesis by simp
  next
    case (Some cv)
    with Cons kv show ?thesis by simp
  qed
qed

lemma change_required_mapping:
  assumes "c \<noteq> []" and "map_of e ''service_type'' = Some st"
  shows "change_required (YMap c) (YMap e) =
           (Inr (list_ex (\<lambda>kv. case host_synthetic_type (map_of c) (map_of e) (fst kv) of
                                 Some cv \<Rightarrow> \<not> py_eq cv (snd kv)
                               | None \<Rightarrow> fst kv \<noteq> ''location'') e),
            YMap (if st = YStr ''host''
                  then dict_setitem ''service_type'' (YStr ''host'') c else c))"
proof (cases "st = YStr ''host''")
  case True
  with assms show ?thesis
    by (simp add: change_required_def change_required_loop_mapping host_synthetic_type_def
        map_of_dict_setitem)
next
  case False
  with assms show ?thesis
    by (simp add: change_required_def py_eq_host change_required_loop_mapping
        host_synthetic_type_def)
qed








text \<open>
  Claim C10. Called with a non-empty live mapping and a desired spec whose
  \<open>service_type\<close> is \<open>host\<close>, \<open>change_required\<close> leaves the caller's mapping with
  \<open>service_type = host\<close> written into it (every other field as it was); on every other
  input, and on every live value that is not a mapping, the \<open>current\<close> argument is
  the same after the call as before it.
\<close>

theorem change_required_mutates_current:
  "(c \<noteq> [] \<and> map_of e ''service_type'' = Some (YStr ''host'') \<longrightarrow>
      (\<exists>c'. snd (change_required (YMap c) (YMap e)) = YMap c'
            \<and> c' = dict_setitem ''service_type'' (YStr ''host'') c
            \<and> map_of c' = (map_of c)(''service_type'' \<mapsto> YStr ''host'')))
   \<and> (\<not> (py_truthy current \<and> py_getitem expected ''service_type'' = Inr (YStr ''host'')) \<longrightarrow>
        snd (change_required current expected) = current)
   \<and> ((\<forall>d. current \<noteq> YMap d) \<longrightarrow> snd (change_required current expected) = current)"
proof (intro conjI impI)
  assume "c \<noteq> [] \<and> map_of e ''service_type'' = Some (YStr ''host'')"
  then show "\<exists>c'. snd (change_required (YMap c) (YMap e)) = YMap c'
            \<and> c' = dict_setitem ''service_type'' (YStr ''host'') c
            \<and> map_of c' = (map_of c)(''service_type'' \<mapsto> YStr ''host'')"
    by (simp add: change_required_mapping map_of_dict_setitem)
next
  assume "\<not> (py_truthy current \<and> py_getitem expected ''service_type'' = Inr (YStr ''host''))"
  then show "snd (change_required current expected) = current"
    by (auto simp: change_required_def py_eq_host split: sum.splits)
next
  assume "\<forall>d. current \<noteq> YMap d"
  then show "snd (change_required current expected) = current"
    by (cases current) (auto simp: change_required_def split: sum.splits)
qed

theorem change_required_mutates_current_witness:
  "snd (change_required
         (YMap [(''hostname'', YStr ''node1''), (''addr'', YStr ''10.0.0.1'')])
         (YMap [(''service_type'', YStr ''host''), (''hostname'', YStr ''node1'')])) =
     YMap [(''hostname'', YStr ''node1''), (''addr'', YStr ''10.0.0.1''),
           (''service_type'', YStr ''host'')]
   \<and> snd (change_required
         (YMap [(''service_type'', YStr ''mon''), (''unmanaged'', YBool False)])
         (YMap [(''service_type'', YStr ''mon'')])) =
     YMap [(''service_type'', YStr ''mon''), (''unmanaged'', YBool False)]
   \<and> snd (change_required (YStr ''No services reported'')
         (YMap [(''service_type'', YStr ''host'')])) = YStr ''No services reported''"
  using change_required_mutates_current
    [of "[(''hostname'', YStr ''node1''), (''addr'', YStr ''10.0.0.1'')]"
        "[(''service_type'', YStr ''host''), (''hostname'', YStr ''node1'')]"
        "YMap [(''service_type'', YStr ''mon''), (''unmanaged'', YBool False)]"
        "YMap [(''service_type'', YStr ''mon'')]"]
    change_required_mutates_current
    [of "[]" "[]" "YStr ''No services reported''" "YMap [(''service_type'', YStr ''host'')]"]
  by simp

section \<open>Properties of ceph\_orch\_apply\<close>

lemma sample_orch_sel [simp]:
  "check_mode (sample_orch dry listing applied) = dry"
  "run_command (sample_orch dry listing applied) cmd data =
     (if data = None then listing else applied)"
  "params_spec (sample_orch dry listing applied) = ''service_type: mon''"
  "HAS_ANOTHER_LIBRARY (sample_orch dry listing applied)"
  "build_base_cmd_orch (sample_orch dry listing applied) =
     [YStr ''cephadm'', YStr ''shell'', YStr ''ceph'', YStr ''orch'']"
  "safe_load (sample_orch dry listing applied) s =
     (if s = [] then Inr YNull
      else if s = ''service_type: mon'' then Inr (YMap [(''service_type'', YStr ''mon'')])
      else Inr (YStr s))"
  by (simp_all add: sample_orch_def)

lemma retrieve_current_spec_triple:
  assumes "py_getitem expected ''service_type'' = Inr service"
    and "retrieve_cmd module expected service = Inr cmd"
    and "run_command module cmd None = RTuple rc out err"
  shows "retrieve_current_spec module expected = (safe_load module out, [(cmd, None)])"
  using assms by (simp add: retrieve_current_spec_def)

text \<open>
  Claim C2, evaluated on the code. \<^verbatim>\<open>run_command\<close> returns the triple
  \<^verbatim>\<open>(rc, stdout, stderr)\<close>; when the listing command reports
  \<^verbatim>\<open>No services reported\<close> on its standard output, \<^verbatim>\<open>isinstance(out, str)\<close> is false
  and \<open>retrieve_current_spec\<close> returns what \<^verbatim>\<open>yaml.safe_load\<close> makes of that text.
  The empty mapping is returned only when \<^verbatim>\<open>run_command\<close> itself returns a bare
  string.
\<close>

theorem retrieve_current_spec_sentinel:
  "retrieve_current_spec
     (module\<lparr>run_command := \<lambda>cmd data. RTuple 0 ''No services reported'' []\<rparr>)
     (YMap [(''service_type'', YStr ''mon'')]) =
   (safe_load module ''No services reported'',
    [(build_base_cmd_orch module @
        [YStr ''ls'', YStr ''mon'', YStr ''mon'', YStr ''--format=yaml''], None)])
   \<and> retrieve_current_spec
     (module\<lparr>run_command := \<lambda>cmd data. RStr ''No services reported''\<rparr>)
     (YMap [(''service_type'', YStr ''mon'')]) =
   (Inr (YMap []),
    [(build_base_cmd_orch module @
        [YStr ''ls'', YStr ''mon'', YStr ''mon'', YStr ''--format=yaml''], None)])"
  by (simp add: retrieve_current_spec_def retrieve_cmd_def id_services_def)

text \<open>
  Claim C6. In check mode \<open>run_module\<close> runs no command at all, neither the listing
  nor the apply command, and (the YAML library being importable) ends through
  \<^verbatim>\<open>exit_module\<close> with \<^verbatim>\<open>changed=False\<close>, \<^verbatim>\<open>cmd=[]\<close>, \<^verbatim>\<open>rc=0\<close> and empty output,
  whatever the spec and the state of the cluster are.
\<close>

theorem run_module_check_mode:
  "check_mode module \<Longrightarrow>
     snd (run_module module) = [] \<and>
     (HAS_ANOTHER_LIBRARY module \<longrightarrow>
        fst (run_module module) =
          Exited \<lparr>exit_out = [], exit_rc = 0, exit_cmd = [], exit_err = [],
            exit_changed = False\<rparr>)"
  by (simp add: run_module_def exit_module_def)

theorem run_module_check_mode_witness:
  "check_mode (sample_orch True (RTuple 0 [] []) (RTuple 0 ''Scheduled mon update...'' [])) \<and>
   HAS_ANOTHER_LIBRARY (sample_orch True (RTuple 0 [] []) (RTuple 0 ''Scheduled mon update...'' [])) \<and>
   run_module (sample_orch True (RTuple 0 [] []) (RTuple 0 ''Scheduled mon update...'' [])) =
     (Exited \<lparr>exit_out = [], exit_rc = 0, exit_cmd = [], exit_err = [],
        exit_changed = False\<rparr>, [])"
  using run_module_check_mode
    [of "sample_orch True (RTuple 0 [] []) (RTuple 0 ''Scheduled mon update...'' [])"]
  by (simp add: prod_eq_iff)

section \<open>Properties of ceph\_config\<close>

lemma strip_plain [simp]: "strip ''[...]'' = ''[...]''" "strip ''write stdout'' = ''write stdout''"
  by (simp_all add: strip_def isspace_def)

lemma sample_config_sel [simp]:
  "check_mode (sample_config act v dry dump_rc dump write_rc) = dry"
  "params_who (sample_config act v dry dump_rc dump write_rc) = ''osd.0''"
  "params_option (sample_config act v dry dump_rc dump write_rc) = ''osd_memory_target''"
  "params_value (sample_config act v dry dump_rc dump write_rc) = v"
  "params_action (sample_config act v dry dump_rc dump write_rc) = act"
  "build_base_cmd_shell (sample_config act v dry dump_rc dump write_rc) = [''cephadm'', ''shell'']"
  "json_loads (sample_config act v dry dump_rc dump write_rc) s = Inr dump"
  "run_command (sample_config act v dry dump_rc dump write_rc) cmd data =
     (if cmd = [''cephadm'', ''shell'', ''ceph'', ''config'', ''dump'', ''--format'', ''json'']
        then (dump_rc, ''[...]'', ''dump stderr'')
        else (write_rc, ''write stdout'', ''write stderr''))"
  by (simp_all add: sample_config_def)

lemma cmds_differ:
  "config_set_cmd module who option v \<noteq> config_dump_cmd module"
  "config_rm_cmd module who option \<noteq> config_dump_cmd module"
  by (simp_all add: config_set_cmd_def config_rm_cmd_def config_dump_cmd_def)

lemma get_config_dump_ok:
  assumes "run_command module (config_dump_cmd module) None = (0, out, err)"
  shows "get_config_dump module =
           (Inr (0, config_dump_cmd module, strip out, err), [(config_dump_cmd module, None)])"
  using assms by (simp add: get_config_dump_def Let_def)

lemma get_config_dump_failed:
  assumes "run_command module (config_dump_cmd module) None = (rc, out, err)" and "rc \<noteq> 0"
  shows "get_config_dump module =
           (Inl (Fatal (dump_failure_prefix @ err)), [(config_dump_cmd module, None)])"
  using assms by (simp add: get_config_dump_def fatal_def Let_def)

lemma main_body_set:
  assumes "run_command module (config_dump_cmd module) None = (0, out, err)"
    and "json_loads module (strip out) = Inr dump"
  shows "main_body module who option v Action_set =
     (if lower (py_str v) = lower (py_str (get_current_value who option dump))
      then (exit_module (already_set_msg who option v) 0 (config_dump_cmd module) err False,
            [(config_dump_cmd module, None)])
      else if check_mode module
      then (exit_module (would_be_set_msg who option v) 0 (config_dump_cmd module) err True,
            [(config_dump_cmd module, None)])
      else (case run_command module (config_set_cmd module who option (py_str v)) None of
              (rc', out', err') \<Rightarrow>
                (if rc' \<noteq> 0 then Fail_Json err' (config_set_cmd module who option (py_str v)) rc'
                 else exit_module (strip out') rc' (config_set_cmd module who option (py_str v)) err' True,
                 [(config_dump_cmd module, None),
                  (config_set_cmd module who option (py_str v), None)])))"
  using assms
  by (simp add: main_body_def get_config_dump_ok set_option_def Let_def split: prod.splits)

lemma main_body_remove:
  assumes "run_command module (config_dump_cmd module) None = (0, out, err)"
    and "json_loads module (strip out) = Inr dump"
  shows "main_body module who option v Action_remove =
     (if get_current_value who option dump = None
      then (exit_module (already_absent_msg who option) 0 (config_dump_cmd module) err False,
            [(config_dump_cmd module, None)])
      else if check_mode module
      then (exit_module (would_be_removed_msg who option) 0 (config_dump_cmd module) err True,
            [(config_dump_cmd module, None)])
      else (case run_command module (config_rm_cmd module who option) None of
              (rc', out', err') \<Rightarrow>
                (if rc' \<noteq> 0 then Fail_Json err' (config_rm_cmd module who option) rc'
                 else exit_module (strip out') rc' (config_rm_cmd module who option) err' True,
                 [(config_dump_cmd module, None),
                  (config_rm_cmd module who option, None)])))"
  using assms
  by (simp add: main_body_def get_config_dump_ok remove_option_def Let_def split: prod.splits)

lemma main_body_get:
  assumes "run_command module (config_dump_cmd module) None = (0, out, err)"
    and "json_loads module (strip out) = Inr dump"
  shows "main_body module who option v Action_get =
     (case get_current_value who option dump of
        None \<Rightarrow> (exit_module [] 0 (config_dump_cmd module) (no_value_msg who option) False,
                  [(config_dump_cmd module, None)])
      | Some cv \<Rightarrow> (exit_module cv 0 (config_dump_cmd module) err False,
                  [(config_dump_cmd module, None)]))"
  using assms
  by (simp add: main_body_def get_config_dump_ok Let_def split: option.splits)

lemma main_body_dump_failed:
  assumes "run_command module (config_dump_cmd module) None = (rc, out, err)" and "rc \<noteq> 0"
  shows "main_body module who option v act =
           (Fatal (dump_failure_prefix @ err), [(config_dump_cmd module, None)])"
  using assms by (simp add: main_body_def get_config_dump_failed)

lemma main_body_check_mode:
  "check_mode module \<Longrightarrow>
   snd (main_body module who option v act) = [(config_dump_cmd module, None)]"
  by (auto simp: main_body_def get_config_dump_def Let_def
      split: prod.splits sum.splits action.splits option.splits)


lemma lower_None: "lower ''None'' = ''none''"
  by (simp add: lower_def lower_char_def)

text \<open>
  Claim C8. When the command \<^verbatim>\<open>ceph config dump\<close> exits with a non-zero code, the
  invocation ends at once through \<^verbatim>\<open>fatal\<close>, with a message that carries the captured
  standard error; the dump is the only command run, and the outcome does not depend on
  the parameters compared afterwards.
\<close>

theorem config_dump_failure_is_fatal:
  "\<not> (params_action module = Action_set \<and> params_value module = None) \<Longrightarrow>
   run_command module (config_dump_cmd module) None = (rc, out, err) \<Longrightarrow>
   rc \<noteq> 0 \<Longrightarrow>
   main module = (Fatal (dump_failure_prefix @ err), [(config_dump_cmd module, None)])"
  by (simp add: main_def main_body_dump_failed)

theorem config_dump_failure_is_fatal_witness:
  "main (sample_config Action_remove None False 2 [] 0) =
     (Fatal (dump_failure_prefix @ ''dump stderr''),
      [([''cephadm'', ''shell'', ''ceph'', ''config'', ''dump'', ''--format'', ''json''], None)])"
  using config_dump_failure_is_fatal
    [of "sample_config Action_remove None False 2 [] 0" 2 "''[...]''" "''dump stderr''"]
  by (simp add: config_dump_cmd_def)

text \<open>
  Claim C9. With \<^verbatim>\<open>action=set\<close>, no dump entry for (who, option), and a desired
  value whose lower-cased text is \<open>none\<close>, the invocation ends with
  \<^verbatim>\<open>changed=False\<close> and the dump is the only command run: the absent value is
  compared as the text of \<^verbatim>\<open>None\<close>.
\<close>

theorem set_none_text_on_absent_key:
  "params_action module = Action_set \<Longrightarrow>
   params_value module = Some v \<Longrightarrow>
   lower v = ''none'' \<Longrightarrow>
   run_command module (config_dump_cmd module) None = (0, out, err) \<Longrightarrow>
   json_loads module (strip out) = Inr dump \<Longrightarrow>
   get_current_value (params_who module) (params_option module) dump = None \<Longrightarrow>
   main module =
     (Exited \<lparr>exit_out = already_set_msg (params_who module) (params_option module) (Some v),
        exit_rc = 0, exit_cmd = config_dump_cmd module, exit_err = err,
        exit_changed = False\<rparr>,
      [(config_dump_cmd module, None)])"
  by (simp add: main_def main_body_set exit_module_def lower_None)

theorem set_none_text_on_absent_key_witness:
  "lower ''None'' = ''none'' \<and>
   get_current_value ''osd.0'' ''osd_memory_target''
     [\<lparr>config_section = ''global'', config_name = ''osd_memory_target'',
       config_value = ''4294967296''\<rparr>] = None \<and>
   main (sample_config Action_set (Some ''None'') False 0
     [\<lparr>config_section = ''global'', config_name = ''osd_memory_target'',
       config_value = ''4294967296''\<rparr>] 0) =
     (Exited \<lparr>exit_out = ''who=osd.0 option=osd_memory_target value=None already set. Skipping.'',
        exit_rc = 0,
        exit_cmd = [''cephadm'', ''shell'', ''ceph'', ''config'', ''dump'', ''--format'', ''json''],
        exit_err = ''dump stderr'', exit_changed = False\<rparr>,
      [([''cephadm'', ''shell'', ''ceph'', ''config'', ''dump'', ''--format'', ''json''], None)])"
  using set_none_text_on_absent_key
    [of "sample_config Action_set (Some ''None'') False 0
          [\<lparr>config_section = ''global'', config_name = ''osd_memory_target'',
            config_value = ''4294967296''\<rparr>] 0"
        "''None''" "''[...]''" "''dump stderr''"
        "[\<lparr>config_section = ''global'', config_name = ''osd_memory_target'',
            config_value = ''4294967296''\<rparr>]"]
  by (simp add: config_dump_cmd_def lower_def lower_char_def already_set_msg_def)

text \<open>
  Claim C5, as the code has it. With \<^verbatim>\<open>action=remove\<close> and no dump entry for
  (who, option), \<^verbatim>\<open>config rm\<close> is not run (the dump is the only command) and the
  outcome has \<^verbatim>\<open>changed=False\<close>; the \<^verbatim>\<open>cmd\<close> it reports is the dump command that
  was run, with the exit code and standard error of the dump.
\<close>

theorem remove_absent_key:
  "params_action module = Action_remove \<Longrightarrow>
   run_command module (config_dump_cmd module) None = (0, out, err) \<Longrightarrow>
   json_loads module (strip out) = Inr dump \<Longrightarrow>
   get_current_value (params_who module) (params_option module) dump = None \<Longrightarrow>
   main module =
     (Exited \<lparr>exit_out = already_absent_msg (params_who module) (params_option module),
        exit_rc = 0, exit_cmd = config_dump_cmd module, exit_err = err,
        exit_changed = False\<rparr>,
      [(config_dump_cmd module, None)])"
  by (simp add: main_def main_body_remove exit_module_def)

theorem remove_absent_key_witness:
  "get_current_value ''osd.0'' ''osd_memory_target'' [] = None \<and>
   main (sample_config Action_remove None False 0 [] 0) =
     (Exited \<lparr>exit_out = ''who=osd.0 option=osd_memory_target already absent. Skipping.'',
        exit_rc = 0,
        exit_cmd = [''cephadm'', ''shell'', ''ceph'', ''config'', ''dump'', ''--format'', ''json''],
        exit_err = ''dump stderr'', exit_changed = False\<rparr>,
      [([''cephadm'', ''shell'', ''ceph'', ''config'', ''dump'', ''--format'', ''json''], None)])"
  using remove_absent_key
    [of "sample_config Action_remove None False 0 [] 0" "''[...]''" "''dump stderr''" "[]"]
  by (simp add: config_dump_cmd_def already_absent_msg_def)

text \<open>The reported \<^verbatim>\<open>cmd\<close> is not the empty list.\<close>

theorem remove_absent_key_cmd_counterexample:
  "params_action (sample_config Action_remove None False 0 [] 0) = Action_remove \<and>
   get_current_value ''osd.0'' ''osd_memory_target'' [] = None \<and>
   \<not> (\<exists>a. fst (main (sample_config Action_remove None False 0 [] 0)) = Exited a \<and>
          exit_changed a = False \<and> exit_cmd a = [])"
  by (simp add: main_def main_body_remove [where out = "''[...]''" and err = "''dump stderr''" and dump = "[]"]
      exit_module_def config_dump_cmd_def)

text \<open>
  Claim C3, as the code has it. With \<^verbatim>\<open>action=set\<close> and a dump that succeeded, the
  \<^verbatim>\<open>config set\<close> command is left out and \<^verbatim>\<open>changed=False\<close> is reported exactly when
  the lower-cased texts of the desired and of the current value are equal. When they
  differ outside check mode, \<^verbatim>\<open>config set\<close> runs after the dump; \<^verbatim>\<open>changed=True\<close>
  is reported when it exits with code 0, and a non-zero exit ends the invocation through
  \<^verbatim>\<open>fail_json\<close> instead.
\<close>

theorem set_skipped_iff_equal:
  assumes "params_action module = Action_set"
    and "params_value module = Some v"
    and "run_command module (config_dump_cmd module) None = (0, out, err)"
    and "json_loads module (strip out) = Inr dump"
  shows
    "(((config_set_cmd module (params_who module) (params_option module) v, None)
         \<notin> set (snd (main module)) \<and>
       (\<exists>a. fst (main module) = Exited a \<and> exit_changed a = False)) \<longleftrightarrow>
      lower (py_str (Some v)) =
        lower (py_str (get_current_value (params_who module) (params_option module) dump)))
     \<and> (lower (py_str (Some v)) \<noteq>
          lower (py_str (get_current_value (params_who module) (params_option module) dump)) \<and>
        \<not> check_mode module \<and>
        run_command module
          (config_set_cmd module (params_who module) (params_option module) v) None =
          (rc', out', err') \<longrightarrow>
          snd (main module) =
            [(config_dump_cmd module, None),
             (config_set_cmd module (params_who module) (params_option module) v, None)] \<and>
          fst (main module) =
            (if rc' = 0
             then Exited \<lparr>exit_out = strip out', exit_rc = 0,
                    exit_cmd = config_set_cmd module (params_who module) (params_option module) v,
                    exit_err = err', exit_changed = True\<rparr>
             else Fail_Json err'
                    (config_set_cmd module (params_who module) (params_option module) v) rc'))"
proof -
  let ?who = "params_who module" and ?opt = "params_option module"
  let ?cur = "get_current_value ?who ?opt dump"
  have body: "main module = main_body module ?who ?opt (Some v) Action_set"
    using assms(1,2) by (simp add: main_def)
  note unfold = main_body_set [OF assms(3,4), of ?who ?opt "Some v"]
  show ?thesis
  proof (cases "lower (py_str (Some v)) = lower (py_str ?cur)")
    case True
    then show ?thesis
      by (simp add: body unfold exit_module_def cmds_differ)
  next
    case False
    show ?thesis
    proof (cases "check_mode module")
      case True
      with False show ?thesis
        by (simp add: body unfold exit_module_def cmds_differ)
    next
      case nodry: False
      obtain r o' e' where w: "run_command module (config_set_cmd module ?who ?opt v) None = (r, o', e')"
        by (cases "run_command module (config_set_cmd module ?who ?opt v) None")
      with False nodry show ?thesis
        by (auto simp add: body unfold exit_module_def)
    qed
  qed
qed


theorem set_skipped_iff_equal_witness:
  "lower (py_str (Some ''TRUE'')) = lower (py_str (Some ''true'')) \<and>
   ([''cephadm'', ''shell'', ''ceph'', ''config'', ''set'', ''osd.0'', ''osd_memory_target'',
     ''TRUE''], None)
     \<notin> set (snd (main (sample_config Action_set (Some ''TRUE'') False 0
          [\<lparr>config_section = ''osd.0'', config_name = ''osd_memory_target'',
            config_value = ''true''\<rparr>] 0))) \<and>
   (\<exists>a. fst (main (sample_config Action_set (Some ''TRUE'') False 0
          [\<lparr>config_section = ''osd.0'', config_name = ''osd_memory_target'',
            config_value = ''true''\<rparr>] 0)) = Exited a \<and> exit_changed a = False) \<and>
   lower (py_str (Some ''5368709120'')) \<noteq> lower (py_str None) \<and>
   main (sample_config Action_set (Some ''5368709120'') False 0 [] 0) =
     (Exited \<lparr>exit_out = ''write stdout'', exit_rc = 0,
        exit_cmd = [''cephadm'', ''shell'', ''ceph'', ''config'', ''set'', ''osd.0'',
          ''osd_memory_target'', ''5368709120''],
        exit_err = ''write stderr'', exit_changed = True\<rparr>,
      [([''cephadm'', ''shell'', ''ceph'', ''config'', ''dump'', ''--format'', ''json''], None),
       ([''cephadm'', ''shell'', ''ceph'', ''config'', ''set'', ''osd.0'',
          ''osd_memory_target'', ''5368709120''], None)])"
proof -
  have eq: "lower (py_str (Some ''TRUE'')) = lower (py_str (Some ''true''))"
    by (simp add: lower_def lower_char_def)
  have ne: "lower (py_str (Some ''5368709120'')) \<noteq> lower (py_str None)"
    by (simp add: lower_def lower_char_def)
  from eq ne show ?thesis
    using set_skipped_iff_equal
      [of "sample_config Action_set (Some ''TRUE'') False 0
            [\<lparr>config_section = ''osd.0'', config_name = ''osd_memory_target'',
              config_value = ''true''\<rparr>] 0"
          "''TRUE''" "''[...]''" "''dump stderr''"
          "[\<lparr>config_section = ''osd.0'', config_name = ''osd_memory_target'',
              config_value = ''true''\<rparr>]"]
      set_skipped_iff_equal
      [of "sample_config Action_set (Some ''5368709120'') False 0 [] 0"
          "''5368709120''" "''[...]''" "''dump stderr''" "[]"
          0 "''write stdout''" "''write stderr''"]
    by (simp add: config_dump_cmd_def config_set_cmd_def prod_eq_iff)
qed

text \<open>A \<^verbatim>\<open>config set\<close> that exits with a non-zero code reports no
  \<^verbatim>\<open>changed=True\<close>.\<close>

theorem set_failure_not_changed_counterexample:
  "params_action (sample_config Action_set (Some ''5368709120'') False 0 [] 22) = Action_set \<and>
   lower (py_str (Some ''5368709120'')) \<noteq>
     lower (py_str (get_current_value ''osd.0'' ''osd_memory_target'' [])) \<and>
   \<not> check_mode (sample_config Action_set (Some ''5368709120'') False 0 [] 22) \<and>
   fst (main (sample_config Action_set (Some ''5368709120'') False 0 [] 22)) =
     Fail_Json ''write stderr''
       [''cephadm'', ''shell'', ''ceph'', ''config'', ''set'', ''osd.0'', ''osd_memory_target'',
        ''5368709120''] 22 \<and>
   \<not> (\<exists>a. fst (main (sample_config Action_set (Some ''5368709120'') False 0 [] 22)) = Exited a \<and>
          exit_changed a = True)"
  by (simp add: main_def
      main_body_set [where out = "''[...]''" and err = "''dump stderr''" and dump = "[]"]
      config_dump_cmd_def config_set_cmd_def lower_def lower_char_def)

section \<open>Failure of a write command in the two modules\<close>

text \<open>
  Claim C4. When \<^verbatim>\<open>ceph orch apply\<close> is reached and exits with a non-zero code,
  \<open>apply_spec\<close> raises \<^verbatim>\<open>RuntimeError\<close> with the captured standard error and the
  invocation ends with that exception. When \<^verbatim>\<open>config set\<close> or \<^verbatim>\<open>config rm\<close> is
  reached and exits with a non-zero code, the invocation ends through \<^verbatim>\<open>fail_json\<close>
  with the standard error as message, the command and the exit code.
\<close>

theorem write_failure_abort_versus_report:
  "(\<not> check_mode m \<and> HAS_ANOTHER_LIBRARY m \<and>
    parse_spec m (params_spec m) = Inr expected \<and>
    retrieve_current_spec m expected = (Inr current, reads) \<and>
    fst (change_required current expected) = Inr True \<and>
    run_command m (build_base_cmd_orch m @ [YStr ''apply'', YStr ''-i'', YStr ''-''])
      (Some (params_spec m)) = RTuple rc out err \<and>
    rc \<noteq> 0 \<longrightarrow>
      fst (apply_spec m (params_spec m)) = Inl (RuntimeError err) \<and>
      fst (run_module m) = Raised (RuntimeError err))
   \<and> (params_action s = Action_set \<and> params_value s = Some v \<and> \<not> check_mode s \<and>
       run_command s (config_dump_cmd s) None = (0, dout, derr) \<and>
       json_loads s (strip dout) = Inr dump \<and>
       lower v \<noteq> lower (py_str (get_current_value (params_who s) (params_option s) dump)) \<and>
       run_command s (config_set_cmd s (params_who s) (params_option s) v) None =
         (rc', out', err') \<and>
       rc' \<noteq> 0 \<longrightarrow>
         fst (main s) = Fail_Json err' (config_set_cmd s (params_who s) (params_option s) v) rc')
   \<and> (params_action r = Action_remove \<and> \<not> check_mode r \<and>
       run_command r (config_dump_cmd r) None = (0, dout2, derr2) \<and>
       json_loads r (strip dout2) = Inr dump2 \<and>
       get_current_value (params_who r) (params_option r) dump2 = Some cv \<and>
       run_command r (config_rm_cmd r (params_who r) (params_option r)) None =
         (rc2, out2, err2) \<and>
       rc2 \<noteq> 0 \<longrightarrow>
         fst (main r) = Fail_Json err2 (config_rm_cmd r (params_who r) (params_option r)) rc2)"
proof (intro conjI impI)
  assume a: "\<not> check_mode m \<and> HAS_ANOTHER_LIBRARY m \<and>
    parse_spec m (params_spec m) = Inr expected \<and>
    retrieve_current_spec m expected = (Inr current, reads) \<and>
    fst (change_required current expected) = Inr True \<and>
    run_command m (build_base_cmd_orch m @ [YStr ''apply'', YStr ''-i'', YStr ''-''])
      (Some (params_spec m)) = RTuple rc out err \<and>
    rc \<noteq> 0"
  then have ap: "apply_spec m (params_spec m) =
      (Inl (RuntimeError err),
       [(build_base_cmd_orch m @ [YStr ''apply'', YStr ''-i'', YStr ''-''], Some (params_spec m))])"
    by (simp add: apply_spec_def Let_def)
  then show "fst (apply_spec m (params_spec m)) = Inl (RuntimeError err)" by simp
  from a ap show "fst (run_module m) = Raised (RuntimeError err)"
    by (simp add: run_module_def)
next
  assume "params_action s = Action_set \<and> params_value s = Some v \<and> \<not> check_mode s \<and>
       run_command s (config_dump_cmd s) None = (0, dout, derr) \<and>
       json_loads s (strip dout) = Inr dump \<and>
       lower v \<noteq> lower (py_str (get_current_value (params_who s) (params_option s) dump)) \<and>
       run_command s (config_set_cmd s (params_who s) (params_option s) v) None =
         (rc', out', err') \<and>
       rc' \<noteq> 0"
  then show "fst (main s) =
      Fail_Json err' (config_set_cmd s (params_who s) (params_option s) v) rc'"
    by (simp add: main_def main_body_set)
next
  assume "params_action r = Action_remove \<and> \<not> check_mode r \<and>
       run_command r (config_dump_cmd r) None = (0, dout2, derr2) \<and>
       json_loads r (strip dout2) = Inr dump2 \<and>
       get_current_value (params_who r) (params_option r) dump2 = Some cv \<and>
       run_command r (config_rm_cmd r (params_who r) (params_option r)) None =
         (rc2, out2, err2) \<and>
       rc2 \<noteq> 0"
  then show "fst (main r) =
      Fail_Json err2 (config_rm_cmd r (params_who r) (params_option r)) rc2"
    by (simp add: main_def main_body_remove)
qed


theorem write_failure_abort_versus_report_witness:
  "fst (apply_spec (sample_orch False (RTuple 0 [] []) (RTuple 1 [] ''Error EINVAL''))
          ''service_type: mon'') = Inl (RuntimeError ''Error EINVAL'') \<and>
   fst (run_module (sample_orch False (RTuple 0 [] []) (RTuple 1 [] ''Error EINVAL''))) =
     Raised (RuntimeError ''Error EINVAL'') \<and>
   fst (main (sample_config Action_set (Some ''5368709120'') False 0 [] 22)) =
     Fail_Json ''write stderr''
       [''cephadm'', ''shell'', ''ceph'', ''config'', ''set'', ''osd.0'', ''osd_memory_target'',
        ''5368709120''] 22 \<and>
   fst (main (sample_config Action_remove None False 0
          [\<lparr>config_section = ''osd.0'', config_name = ''osd_memory_target'',
            config_value = ''4294967296''\<rparr>] 1)) =
     Fail_Json ''write stderr''
       [''cephadm'', ''shell'', ''ceph'', ''config'', ''rm'', ''osd.0'', ''osd_memory_target''] 1"
proof -
  have ne: "lower ''5368709120'' \<noteq> lower (py_str None)"
    by (simp add: lower_def lower_char_def)
  have fetch: "retrieve_current_spec
      (sample_orch False (RTuple 0 [] []) (RTuple 1 [] ''Error EINVAL''))
      (YMap [(''service_type'', YStr ''mon'')]) =
      (Inr YNull,
       [([YStr ''cephadm'', YStr ''shell'', YStr ''ceph'', YStr ''orch'', YStr ''ls'',
          YStr ''mon'', YStr ''mon'', YStr ''--format=yaml''], None)])"
    by (simp add: retrieve_current_spec_def retrieve_cmd_def id_services_def)
  have verdict: "fst (change_required YNull (YMap [(''service_type'', YStr ''mon'')])) = Inr True"
    by (simp add: change_required_def)
  from ne fetch verdict show ?thesis
    using write_failure_abort_versus_report
      [of "sample_orch False (RTuple 0 [] []) (RTuple 1 [] ''Error EINVAL'')"
          "YMap [(''service_type'', YStr ''mon'')]" YNull
          "[([YStr ''cephadm'', YStr ''shell'', YStr ''ceph'', YStr ''orch'', YStr ''ls'',
              YStr ''mon'', YStr ''mon'', YStr ''--format=yaml''], None)]"
          1 "[]" "''Error EINVAL''"
          "sample_config Action_set (Some ''5368709120'') False 0 [] 22"
          "''5368709120''" "''[...]''" "''dump stderr''" "[]"
          22 "''write stdout''" "''write stderr''"
          "sample_config Action_remove None False 0
            [\<lparr>config_section = ''osd.0'', config_name = ''osd_memory_target'',
              config_value = ''4294967296''\<rparr>] 1"
          "''[...]''" "''dump stderr''"
          "[\<lparr>config_section = ''osd.0'', config_name = ''osd_memory_target'',
              config_value = ''4294967296''\<rparr>]"
          "''4294967296''" 1 "''write stdout''" "''write stderr''"]
    by (simp add: parse_spec_def config_dump_cmd_def config_set_cmd_def config_rm_cmd_def)
qed

section \<open>ceph\_config in check mode\<close>

text \<open>
  Claim C7. In check mode \<open>main\<close> runs no command but
  \<^verbatim>\<open>ceph config dump --format json\<close>. When the dump succeeded, the outcome's
  \<^verbatim>\<open>changed\<close> is the verdict of the evaluator on the value found in that dump, and when
  a change is required the output is the text \<^verbatim>\<open>who=W option=O would be set to V\<close>
  for \<^verbatim>\<open>action=set\<close> with the value \<open>V\<close>, and \<^verbatim>\<open>who=W option=O would be removed\<close>
  for \<^verbatim>\<open>action=remove\<close>, where \<open>W\<close> and \<open>O\<close> are the parameters \<^verbatim>\<open>who\<close> and
  \<^verbatim>\<open>option\<close>.
\<close>

theorem main_check_mode:
  assumes "check_mode module"
  shows
    "(\<forall>call \<in> set (snd (main module)).
        call = (build_base_cmd_shell module @
                  [''ceph'', ''config'', ''dump'', ''--format'', ''json''], None))
     \<and> (\<not> (params_action module = Action_set \<and> params_value module = None) \<and>
        run_command module
          (build_base_cmd_shell module @ [''ceph'', ''config'', ''dump'', ''--format'', ''json''])
          None = (0, out, err) \<and>
        json_loads module (strip out) = Inr dump \<longrightarrow>
          snd (main module) =
            [(build_base_cmd_shell module @
                [''ceph'', ''config'', ''dump'', ''--format'', ''json''], None)] \<and>
          (\<exists>a. fst (main module) = Exited a \<and>
             exit_changed a =
               config_change_required (params_action module) (params_value module)
                 (get_current_value (params_who module) (params_option module) dump) \<and>
             (params_action module = Action_set \<and> exit_changed a \<longrightarrow>
                (\<exists>v. params_value module = Some v \<and>
                   exit_out a =
                     ''who='' @ params_who module @ '' option='' @ params_option module @
                     '' would be set to '' @ v)) \<and>
             (params_action module = Action_remove \<and> exit_changed a \<longrightarrow>
                exit_out a =
                  ''who='' @ params_who module @ '' option='' @ params_option module @
                  '' would be removed'')))"
proof (intro conjI impI)
  show "\<forall>call \<in> set (snd (main module)).
        call = (build_base_cmd_shell module @
                  [''ceph'', ''config'', ''dump'', ''--format'', ''json''], None)"
    using assms by (simp add: main_def main_body_check_mode config_dump_cmd_def)
next
  assume a: "\<not> (params_action module = Action_set \<and> params_value module = None) \<and>
        run_command module
          (build_base_cmd_shell module @ [''ceph'', ''config'', ''dump'', ''--format'', ''json''])
          None = (0, out, err) \<and>
        json_loads module (strip out) = Inr dump"
  then show "snd (main module) =
            [(build_base_cmd_shell module @
                [''ceph'', ''config'', ''dump'', ''--format'', ''json''], None)]"
    using assms by (simp add: main_def main_body_check_mode config_dump_cmd_def)
  from a have ok: "run_command module (config_dump_cmd module) None = (0, out, err)"
    "json_loads module (strip out) = Inr dump" by (simp_all add: config_dump_cmd_def)
  show "\<exists>a. fst (main module) = Exited a \<and>
             exit_changed a =
               config_change_required (params_action module) (params_value module)
                 (get_current_value (params_who module) (params_option module) dump) \<and>
             (params_action module = Action_set \<and> exit_changed a \<longrightarrow>
                (\<exists>v. params_value module = Some v \<and>
                   exit_out a =
                     ''who='' @ params_who module @ '' option='' @ params_option module @
                     '' would be set to '' @ v)) \<and>
             (params_action module = Action_remove \<and> exit_changed a \<longrightarrow>
                exit_out a =
                  ''who='' @ params_who module @ '' option='' @ params_option module @
                  '' would be removed'')"
  proof (cases "params_action module")
    case Action_get
    with a assms show ?thesis
      by (simp add: main_def main_body_get [OF ok] exit_module_def config_change_required_def
          split: option.splits)
  next
    case Action_set
    with a obtain v where v: "params_value module = Some v" by auto
    with Action_set a assms show ?thesis
      by (simp add: main_def main_body_set [OF ok] exit_module_def config_change_required_def
          would_be_set_msg_def)
  next
    case Action_remove
    with a assms show ?thesis
      by (simp add: main_def main_body_remove [OF ok] exit_module_def
          config_change_required_def would_be_removed_msg_def)
  qed
qed

theorem main_check_mode_witness:
  "check_mode (sample_config Action_set (Some ''5368709120'') True 0 [] 0) \<and>
   config_change_required Action_set (Some ''5368709120'')
     (get_current_value ''osd.0'' ''osd_memory_target'' []) \<and>
   main (sample_config Action_set (Some ''5368709120'') True 0 [] 0) =
     (Exited \<lparr>exit_out = ''who=osd.0 option=osd_memory_target would be set to 5368709120'',
        exit_rc = 0,
        exit_cmd = [''cephadm'', ''shell'', ''ceph'', ''config'', ''dump'', ''--format'', ''json''],
        exit_err = ''dump stderr'', exit_changed = True\<rparr>,
      [([''cephadm'', ''shell'', ''ceph'', ''config'', ''dump'', ''--format'', ''json''], None)]) \<and>
   check_mode (sample_config Action_remove None True 0
     [\<lparr>config_section = ''osd.0'', config_name = ''osd_memory_target'',
       config_value = ''4294967296''\<rparr>] 0) \<and>
   main (sample_config Action_remove None True 0
     [\<lparr>config_section = ''osd.0'', config_name = ''osd_memory_target'',
       config_value = ''4294967296''\<rparr>] 0) =
     (Exited \<lparr>exit_out = ''who=osd.0 option=osd_memory_target would be removed'',
        exit_rc = 0,
        exit_cmd = [''cephadm'', ''shell'', ''ceph'', ''config'', ''dump'', ''--format'', ''json''],
        exit_err = ''dump stderr'', exit_changed = True\<rparr>,
      [([''cephadm'', ''shell'', ''ceph'', ''config'', ''dump'', ''--format'', ''json''], None)])"
proof -
  have ne: "lower ''5368709120'' \<noteq> lower (py_str None)"
    by (simp add: lower_def lower_char_def)
  from ne show ?thesis
    using main_check_mode
      [of "sample_config Action_set (Some ''5368709120'') True 0 [] 0"
          "''[...]''" "''dump stderr''" "[]"]
      main_check_mode
      [of "sample_config Action_remove None True 0
            [\<lparr>config_section = ''osd.0'', config_name = ''osd_memory_target'',
              config_value = ''4294967296''\<rparr>] 0"
          "''[...]''" "''dump stderr''"
          "[\<lparr>config_section = ''osd.0'', config_name = ''osd_memory_target'',
              config_value = ''4294967296''\<rparr>]"]
    by (simp add: main_def exit_module_def
        main_body_set [where out = "''[...]''" and err = "''dump stderr''" and dump = "[]"]
        main_body_remove [where out = "''[...]''" and err = "''dump stderr''" and dump =
          "[\<lparr>config_section = ''osd.0'', config_name = ''osd_memory_target'',
              config_value = ''4294967296''\<rparr>]"]
        config_dump_cmd_def config_change_required_def would_be_set_msg_def
        would_be_removed_msg_def)
qed

end
